theory Spec2Isabelle
  imports Main
begin

section \<open>HTML to PDF converter (htmltopdf.py)\<close>

text \<open>
  The program reads one HTML file, rewrites the \<open>src\<close> of its \<open>img\<close> elements, collects
  the local stylesheets its \<open>link\<close> elements name, composes a page-rule block and calls the
  PDF renderer. Parsing, serialisation and rendering are library calls: they are fields of
  an environment record, together with the file system the program reads.

  Strings are \<open>char list\<close>. Every string test of the program compares with ASCII text
  (\<open>http://\<close>, \<open>https://\<close>, \<open>/\<close>, \<open>stylesheet\<close>), and no character outside ASCII
  lower-cases to a letter of \<open>stylesheet\<close>, so \<open>lower\<close> acts on the letters A to Z only.
\<close>

subsection \<open>Strings and paths\<close>

definition startswith :: "string \<Rightarrow> string \<Rightarrow> bool" where
  "startswith s p = (take (length p) s = p)"

definition endswith :: "string \<Rightarrow> string \<Rightarrow> bool" where
  "endswith s p = (length p \<le> length s \<and> drop (length s - length p) s = p)"

definition lower_char :: "char \<Rightarrow> char" where
  "lower_char c =
     (let n = (of_char c :: nat) in if 65 \<le> n \<and> n \<le> 90 then char_of (n + 32) else c)"

definition lower :: "string \<Rightarrow> string" where
  "lower s = map lower_char s"

text \<open>\<open>os.path.join\<close> with two arguments and \<open>os.path.dirname\<close>, as in \<open>posixpath\<close>.\<close>

definition os_path_join :: "string \<Rightarrow> string \<Rightarrow> string" where
  "os_path_join a b =
     (if startswith b ''/'' then b
      else if a = [] \<or> endswith a ''/'' then a @ b
      else a @ ''/'' @ b)"

definition rstrip_sep :: "string \<Rightarrow> string" where
  "rstrip_sep s = rev (dropWhile (\<lambda>c. c = CHR ''/'') (rev s))"

definition os_path_dirname :: "string \<Rightarrow> string" where
  "os_path_dirname p =
     (let head = rev (dropWhile (\<lambda>c. c \<noteq> CHR ''/'') (rev p))
      in if head \<noteq> [] \<and> head \<noteq> replicate (length head) (CHR ''/'')
         then rstrip_sep head else head)"

subsection \<open>The parsed document\<close>

text \<open>
  An element has a name, its string-valued attributes, its token-list attributes (the
  parser splits \<open>rel\<close>, \<open>class\<close> and the like at white space into a list) and its
  children. Attribute stores are association lists, as the parser's dictionaries keep
  insertion order. The program reads \<open>src\<close> of \<open>img\<close> and \<open>href\<close> of \<open>link\<close>, which are
  strings, and \<open>rel\<close> of \<open>link\<close>, which is a token list.
\<close>

datatype node =
    Tag string "(string \<times> string) list" "(string \<times> string list) list" "node list"
  | NavigableString string

fun get_attr :: "node \<Rightarrow> string \<Rightarrow> string option" where
  "get_attr (Tag n a m cs) k = map_of a k"
| "get_attr (NavigableString s) k = None"

fun get_tokens :: "node \<Rightarrow> string \<Rightarrow> string list option" where
  "get_tokens (Tag n a m cs) k = map_of m k"
| "get_tokens (NavigableString s) k = None"

fun set_attr :: "string \<Rightarrow> string \<Rightarrow> (string \<times> string) list \<Rightarrow> (string \<times> string) list" where
  "set_attr k v [] = [(k, v)]"
| "set_attr k v ((k', v') # ps) = (if k' = k then (k, v) # ps else (k', v') # set_attr k v ps)"

text \<open>\<open>find_all(name)\<close>: the elements of that name, in document order.\<close>

fun find_all :: "string \<Rightarrow> node \<Rightarrow> node list" where
  "find_all nm (Tag n a m cs) =
     (if n = nm then [Tag n a m cs] else []) @ concat (map (find_all nm) cs)"
| "find_all nm (NavigableString s) = []"

definition soup_find_all :: "node list \<Rightarrow> string \<Rightarrow> node list" where
  "soup_find_all soup nm = concat (map (find_all nm) soup)"

subsection \<open>Exceptions, environment and effects\<close>

datatype exn = IndexError | IOError string | RenderError string

fun str_exn :: "exn \<Rightarrow> string" where
  "str_exn IndexError = ''list index out of range''"
| "str_exn (IOError msg) = msg"
| "str_exn (RenderError msg) = msg"

datatype css = CSS string

text \<open>
  What the program calls and does not define: \<open>os.path.exists\<close>, \<open>open(p, 'r')\<close> followed
  by \<open>read()\<close>, \<open>os.path.abspath\<close>, the HTML parser, \<open>str(soup)\<close>, and \<open>write_pdf\<close>
  (\<open>Some e\<close> when the renderer raises). Wrapping a text as a stylesheet object, \<open>CSS(string=...)\<close>,
  is the constructor \<open>CSS\<close> and does not fail.
\<close>

record env =
  path_exists :: "string \<Rightarrow> bool"
  read_text :: "string \<Rightarrow> exn + string"
  abspath :: "string \<Rightarrow> string"
  BeautifulSoup :: "string \<Rightarrow> node list"
  str_soup :: "node list \<Rightarrow> string"
  write_pdf :: "string \<Rightarrow> string \<Rightarrow> css list \<Rightarrow> exn option"

text \<open>
  The effects of a run: the lines printed, and the calls made to the renderer (document
  text, output path, stylesheet sequence). The renderer is the only writer of output files.
\<close>

record world =
  stdout :: "string list"
  rendered :: "(string \<times> string \<times> css list) list"

subsection \<open>\<open>find_css_files\<close>\<close>

text \<open>
  \<open>link.get('rel', [''])[0]\<close>: the first token, the empty string when the attribute is
  absent, \<open>IndexError\<close> when the token list is empty.
\<close>

definition rel_first :: "node \<Rightarrow> exn + string" where
  "rel_first link =
     (case get_tokens link ''rel'' of
        None \<Rightarrow> Inr []
      | Some [] \<Rightarrow> Inl IndexError
      | Some (t # ts) \<Rightarrow> Inr t)"

fun find_css_loop ::
  "env \<Rightarrow> string \<Rightarrow> node list \<Rightarrow> string list \<Rightarrow> string list \<Rightarrow> (exn + string list) \<times> string list" where
  "find_css_loop e base_dir [] css_files out = (Inr css_files, out)"
| "find_css_loop e base_dir (link # links) css_files out =
     (case rel_first link of
        Inl ex \<Rightarrow> (Inl ex, out)
      | Inr r \<Rightarrow>
          (if lower r = ''stylesheet'' then
             (case get_attr link ''href'' of
                None \<Rightarrow> find_css_loop e base_dir links css_files out
              | Some css_path \<Rightarrow>
                  (if css_path \<noteq> [] then
                     (if \<not> (startswith css_path ''http://'' \<or> startswith css_path ''https://'') then
                        (let abs_path = os_path_join base_dir css_path in
                         (if path_exists e abs_path
                          then find_css_loop e base_dir links (css_files @ [abs_path]) out
                          else find_css_loop e base_dir links css_files
                                 (out @ [''Warning: CSS file not found: '' @ abs_path])))
                      else find_css_loop e base_dir links css_files out)
                   else find_css_loop e base_dir links css_files out))
           else find_css_loop e base_dir links css_files out))"

definition find_css_files ::
  "env \<Rightarrow> node list \<Rightarrow> string \<Rightarrow> string list \<Rightarrow> (exn + string list) \<times> string list" where
  "find_css_files e soup base_dir out = find_css_loop e base_dir (soup_find_all soup ''link'') [] out"

subsection \<open>\<open>load_css_files\<close>\<close>

definition default_css :: css where
  "default_css = CSS (''\<newline>        @page {\<newline>            size: A4;\<newline>            margin: 1cm;\<newline>            @top-center {\<newline>                content: ''
     @ [CHR 0x27, CHR 0x27] @
     '';\<newline>            }\<newline>            @bottom-center {\<newline>                content: counter(page);\<newline>            }\<newline>        }\<newline>    '')"

fun load_css_loop :: "env \<Rightarrow> string list \<Rightarrow> css list \<Rightarrow> string list \<Rightarrow> css list \<times> string list" where
  "load_css_loop e [] stylesheets out = (stylesheets, out)"
| "load_css_loop e (css_file # css_files) stylesheets out =
     (case read_text e css_file of
        Inr text \<Rightarrow> load_css_loop e css_files (stylesheets @ [CSS text]) out
      | Inl ex \<Rightarrow>
          load_css_loop e css_files stylesheets
            (out @ [''Warning: Could not load CSS file '' @ css_file @ '': '' @ str_exn ex]))"

definition load_css_files :: "env \<Rightarrow> string list \<Rightarrow> string list \<Rightarrow> css list \<times> string list" where
  "load_css_files e css_files out =
     (case load_css_loop e css_files [] out of
        (stylesheets, out') \<Rightarrow> (stylesheets @ [default_css], out'))"

subsection \<open>\<open>convert_html_to_pdf\<close>\<close>

text \<open>Lines 64 to 67, for one \<open>img\<close> element: the new attribute store.\<close>

definition img_src :: "string \<Rightarrow> (string \<times> string) list \<Rightarrow> (string \<times> string) list" where
  "img_src base_dir a =
     (case map_of a ''src'' of
        None \<Rightarrow> a
      | Some src \<Rightarrow>
          if src \<noteq> [] \<and>
             \<not> (startswith src ''http://'' \<or> startswith src ''https://'' \<or> startswith src ''/'')
          then set_attr ''src'' (''file://'' @ os_path_join base_dir src) a
          else a)"

text \<open>The loop of line 63 visits every \<open>img\<close> element of the tree and changes it in place.\<close>

fun absolute_imgs :: "string \<Rightarrow> node \<Rightarrow> node" where
  "absolute_imgs base_dir (Tag n a m cs) =
     Tag n (if n = ''img'' then img_src base_dir a else a) m (map (absolute_imgs base_dir) cs)"
| "absolute_imgs base_dir (NavigableString s) = NavigableString s"

definition page_css :: "string \<Rightarrow> string \<Rightarrow> bool \<Rightarrow> string" where
  "page_css page_size margin add_page_numbers =
     ''\<newline>        @page {\<newline>            size: '' @ page_size @
     '';\<newline>            margin: '' @ margin @
     '';\<newline>            '' @
     (if add_page_numbers then ''@bottom-center { content: counter(page); }'' else '''') @
     ''\<newline>        }\<newline>    ''"

definition convert_html_to_pdf ::
  "env \<Rightarrow> string \<Rightarrow> string \<Rightarrow> string \<Rightarrow> string \<Rightarrow> bool \<Rightarrow> bool \<Rightarrow> world \<Rightarrow> (exn + unit) \<times> world" where
  "convert_html_to_pdf e html_path output_pdf page_size margin include_css add_page_numbers w =
     (let base_dir = abspath e (os_path_dirname html_path) in
      case read_text e html_path of
        Inl ex \<Rightarrow> (Inl ex, w)
      | Inr html_content \<Rightarrow>
          let soup = map (absolute_imgs base_dir) (BeautifulSoup e html_content) in
          case (if include_css then
                  (case find_css_files e soup base_dir (stdout w) of
                     (Inl ex, out) \<Rightarrow> (Inl ex, out)
                   | (Inr css_files, out) \<Rightarrow>
                       (case load_css_files e css_files out of
                          (stylesheets, out') \<Rightarrow> (Inr stylesheets, out')))
                else (Inr [], stdout w)) of
            (Inl ex, out) \<Rightarrow> (Inl ex, w\<lparr>stdout := out\<rparr>)
          | (Inr stylesheets, out) \<Rightarrow>
              let stylesheets' = stylesheets @ [CSS (page_css page_size margin add_page_numbers)];
                  doc = str_soup e soup;
                  w' = w\<lparr>stdout := out, rendered := rendered w @ [(doc, output_pdf, stylesheets')]\<rparr>
              in (case write_pdf e doc output_pdf stylesheets' of
                    Some ex \<Rightarrow> (Inl ex, w')
                  | None \<Rightarrow> (Inr (), w')))"

subsection \<open>\<open>main\<close>\<close>

record args =
  args_html_file :: string
  args_output :: string
  args_size :: string
  args_margin :: string
  args_no_css :: bool
  args_no_page_numbers :: bool

definition main :: "env \<Rightarrow> args \<Rightarrow> world \<Rightarrow> (exn + unit) \<times> world" where
  "main e a w =
     (case convert_html_to_pdf e (args_html_file a) (args_output a) (args_size a) (args_margin a)
             (\<not> args_no_css a) (\<not> args_no_page_numbers a) w of
        (Inr u, w') \<Rightarrow>
          (Inr (), w'\<lparr>stdout := stdout w' @
             [''Successfully converted '' @ args_html_file a @ '' to '' @ args_output a]\<rparr>)
      | (Inl ex, w') \<Rightarrow>
          (Inr (), w'\<lparr>stdout := stdout w' @ [''Error: '' @ str_exn ex]\<rparr>))"

subsection \<open>The specification's vocabulary\<close>


text \<open>
  The local stylesheet reference of one \<open>link\<close> element, resolved against the containing
  directory: the first token of \<open>rel\<close> is \<open>stylesheet\<close> in any letter case, the \<open>href\<close> is
  present and not empty, and it is not a network reference.
\<close>

definition link_ref :: "string \<Rightarrow> node \<Rightarrow> string option" where
  "link_ref base_dir l =
     (case get_tokens l ''rel'' of
        Some (t # ts) \<Rightarrow>
          (case get_attr l ''href'' of
             Some h \<Rightarrow>
               (if lower t = ''stylesheet'' \<and> h \<noteq> [] \<and>
                   \<not> startswith h ''http://'' \<and> \<not> startswith h ''https://''
                then Some (os_path_join base_dir h) else None)
           | None \<Rightarrow> None)
      | _ \<Rightarrow> None)"

definition local_refs :: "string \<Rightarrow> node list \<Rightarrow> string list" where
  "local_refs base_dir links = List.map_filter (link_ref base_dir) links"

text \<open>
  The same with the selection as the specification words it: the \<open>href\<close> is present,
  empty or not.
\<close>

definition spec_link_ref :: "string \<Rightarrow> node \<Rightarrow> string option" where
  "spec_link_ref base_dir l =
     (case get_tokens l ''rel'' of
        Some (t # ts) \<Rightarrow>
          (case get_attr l ''href'' of
             Some h \<Rightarrow>
               (if lower t = ''stylesheet'' \<and>
                   \<not> startswith h ''http://'' \<and> \<not> startswith h ''https://''
                then Some (os_path_join base_dir h) else None)
           | None \<Rightarrow> None)
      | _ \<Rightarrow> None)"

definition spec_local_refs :: "string \<Rightarrow> node list \<Rightarrow> string list" where
  "spec_local_refs base_dir links = List.map_filter (spec_link_ref base_dir) links"

definition missing_warning :: "string \<Rightarrow> string" where
  "missing_warning p = ''Warning: CSS file not found: '' @ p"

definition load_warning :: "env \<Rightarrow> string \<Rightarrow> string option" where
  "load_warning e p =
     (case read_text e p of
        Inl ex \<Rightarrow> Some (''Warning: Could not load CSS file '' @ p @ '': '' @ str_exn ex)
      | Inr text \<Rightarrow> None)"

definition loaded :: "env \<Rightarrow> string \<Rightarrow> css option" where
  "loaded e p = (case read_text e p of Inl ex \<Rightarrow> None | Inr text \<Rightarrow> Some (CSS text))"

text \<open>
  The \<open>src\<close> of an \<open>img\<close> element after normalization: unchanged when empty or starting
  with \<open>http://\<close>, \<open>https://\<close> or \<open>/\<close>, a \<open>file://\<close> path under the containing directory
  otherwise.
\<close>

definition new_src :: "string \<Rightarrow> string \<Rightarrow> string" where
  "new_src base_dir src =
     (if src = [] \<or> startswith src ''http://'' \<or> startswith src ''https://'' \<or> startswith src ''/''
      then src else ''file://'' @ os_path_join base_dir src)"

subsection \<open>A sample run\<close>

text \<open>
  The document \<open>/x/doc.html\<close> with an image, a stylesheet that is there, one that is
  missing and one that cannot be read. Its serialisation lists the \<open>src\<close> of the images.
\<close>

definition sample_soup :: "node list" where
  "sample_soup =
     [Tag ''html'' [] []
        [Tag ''head'' [] []
           [Tag ''link'' [(''href'', ''style.css'')] [(''rel'', [''Stylesheet''])] [],
            Tag ''link'' [(''href'', ''gone.css'')] [(''rel'', [''stylesheet''])] [],
            Tag ''link'' [(''href'', ''locked.css'')] [(''rel'', [''stylesheet'', ''alternate''])] [],
            Tag ''link'' [(''href'', ''https://cdn/x.css'')] [(''rel'', [''stylesheet''])] [],
            Tag ''link'' [(''href'', ''icon.png'')] [(''rel'', [''icon''])] []],
         Tag ''body'' [] [(''class'', [''main''])]
           [NavigableString ''text'',
            Tag ''img'' [(''alt'', ''a''), (''src'', ''pic.png'')] [] [],
            Tag ''img'' [(''src'', ''https://h/p.png'')] [] [],
            Tag ''img'' [(''src'', ''data:image/png;base64,AA'')] [] []]]]"

definition img_srcs :: "node list \<Rightarrow> string" where
  "img_srcs soup =
     concat (map (\<lambda>n. (case get_attr n ''src'' of Some s \<Rightarrow> s @ '' '' | None \<Rightarrow> ''- ''))
                 (soup_find_all soup ''img''))"

definition sample_env :: env where
  "sample_env =
     \<lparr> path_exists = (\<lambda>p. p = ''/x/doc.html'' \<or> p = ''/x/style.css'' \<or> p = ''/x/locked.css''),
       read_text = (\<lambda>p. if p = ''/x/doc.html'' then Inr ''<html>''
                         else if p = ''/x/style.css'' then Inr ''body { color: red }''
                         else if p = ''/x/locked.css'' then Inl (IOError ''Permission denied'')
                         else Inl (IOError ''No such file or directory'')),
       abspath = (\<lambda>p. p),
       BeautifulSoup = (\<lambda>s. sample_soup),
       str_soup = img_srcs,
       write_pdf = (\<lambda>doc out ss. None) \<rparr>"

definition sample_world :: world where
  "sample_world = \<lparr> stdout = [], rendered = [] \<rparr>"

definition sample_args :: args where
  "sample_args =
     \<lparr> args_html_file = ''/x/doc.html'', args_output = ''output.pdf'', args_size = ''A4'',
       args_margin = ''1cm'', args_no_css = False, args_no_page_numbers = False \<rparr>"

text \<open>
  A directory \<open>/x\<close> whose document has one stylesheet link with an empty \<open>href\<close>, and
  arguments naming a document that is not there.
\<close>

definition empty_href_soup :: "node list" where
  "empty_href_soup = [Tag ''link'' [(''href'', [])] [(''rel'', [''stylesheet''])] []]"

definition dir_env :: env where
  "dir_env =
     \<lparr> path_exists = (\<lambda>p. p = ''/x/doc.html'' \<or> p = ''/x/'' \<or> p = ''/x''),
       read_text = (\<lambda>p. if p = ''/x/doc.html'' then Inr ''<html>''
                         else Inl (IOError ''Is a directory'')),
       abspath = (\<lambda>p. p),
       BeautifulSoup = (\<lambda>s. empty_href_soup),
       str_soup = img_srcs,
       write_pdf = (\<lambda>doc out ss. None) \<rparr>"

definition missing_args :: args where
  "missing_args =
     \<lparr> args_html_file = ''/x/nope.html'', args_output = ''output.pdf'', args_size = ''A4'',
       args_margin = ''1cm'', args_no_css = False, args_no_page_numbers = False \<rparr>"

section \<open>Properties\<close>

subsection \<open>Auxiliary facts\<close>

lemma map_of_set_attr: "map_of (set_attr k v a) k = Some v"
  by (induction a) auto

lemma find_all_absolute_imgs:
  "find_all nm (absolute_imgs base_dir n) = map (absolute_imgs base_dir) (find_all nm n)"
proof (induction base_dir n rule: absolute_imgs.induct)
  case (1 base_dir n a m cs)
  have "concat (map (find_all nm) (map (absolute_imgs base_dir) cs)) =
        map (absolute_imgs base_dir) (concat (map (find_all nm) cs))"
    using 1 by (induction cs) auto
  then show ?case by simp
next
  case (2 base_dir s)
  show ?case by simp
qed

lemma soup_find_all_absolute_imgs:
  "soup_find_all (map (absolute_imgs base_dir) soup) nm =
   map (absolute_imgs base_dir) (soup_find_all soup nm)"
  by (induction soup) (simp_all add: soup_find_all_def find_all_absolute_imgs)

lemma find_all_name: "x \<in> set (find_all nm n) \<Longrightarrow> \<exists>a m cs. x = Tag nm a m cs"
proof (induction nm n rule: find_all.induct)
  case (1 nm n a m cs)
  then show ?case by (auto split: if_splits)
next
  case (2 nm s)
  then show ?case by simp
qed

lemma img_get_src:
  "get_attr (absolute_imgs base_dir (Tag ''img'' a m cs)) ''src'' =
   map_option (new_src base_dir) (map_of a ''src'')"
  by (auto simp: img_src_def new_src_def map_of_set_attr split: option.splits)

lemma tokens_absolute_imgs: "get_tokens (absolute_imgs base_dir n) k = get_tokens n k"
  by (cases n) simp_all

lemma find_css_loop_eq:
  "\<forall>l\<in>set links. get_tokens l ''rel'' \<noteq> Some [] \<Longrightarrow>
   find_css_loop e base_dir links acc out =
     (Inr (acc @ filter (path_exists e) (local_refs base_dir links)),
      out @ map missing_warning (filter (\<lambda>p. \<not> path_exists e p) (local_refs base_dir links)))"
proof (induction links arbitrary: acc out)
  case Nil
  show ?case by (simp add: local_refs_def map_filter_simps)
next
  case (Cons l links)
  have ne: "get_tokens l ''rel'' \<noteq> Some []" using Cons.prems by simp
  have IH: "\<And>acc out. find_css_loop e base_dir links acc out =
     (Inr (acc @ filter (path_exists e) (local_refs base_dir links)),
      out @ map missing_warning (filter (\<lambda>p. \<not> path_exists e p) (local_refs base_dir links)))"
    using Cons by simp
  show ?case
  proof (cases "link_ref base_dir l")
    case None
    then have "find_css_loop e base_dir (l # links) acc out = find_css_loop e base_dir links acc out"
      using ne by (auto simp: link_ref_def rel_first_def lower_def split: option.splits list.splits if_splits)
    moreover have "local_refs base_dir (l # links) = local_refs base_dir links"
      using None by (simp add: local_refs_def map_filter_simps)
    ultimately show ?thesis using IH by simp
  next
    case (Some p)
    have lr: "local_refs base_dir (l # links) = p # local_refs base_dir links"
      using Some by (simp add: local_refs_def map_filter_simps)
    show ?thesis
    proof (cases "path_exists e p")
      case True
      have "find_css_loop e base_dir (l # links) acc out = find_css_loop e base_dir links (acc @ [p]) out"
        using Some True ne
        by (auto simp: link_ref_def rel_first_def Let_def split: option.splits list.splits if_splits)
      then show ?thesis using IH lr True by simp
    next
      case False
      have "find_css_loop e base_dir (l # links) acc out =
            find_css_loop e base_dir links acc (out @ [missing_warning p])"
        using Some False ne
        by (auto simp: link_ref_def rel_first_def Let_def missing_warning_def
                 split: option.splits list.splits if_splits)
      then show ?thesis using IH lr False by simp
    qed
  qed
qed

lemma load_css_loop_eq:
  "load_css_loop e css_files acc out =
     (acc @ List.map_filter (loaded e) css_files, out @ List.map_filter (load_warning e) css_files)"
  by (induction css_files arbitrary: acc out)
     (auto simp: map_filter_simps loaded_def load_warning_def split: sum.splits)

lemma load_css_files_eq:
  "load_css_files e css_files out =
     (List.map_filter (loaded e) css_files @ [default_css],
      out @ List.map_filter (load_warning e) css_files)"
  by (simp add: load_css_files_def load_css_loop_eq)


lemma link_ref_absolute_imgs:
  "x \<in> set (find_all ''link'' n) \<Longrightarrow> link_ref base_dir (absolute_imgs b x) = link_ref base_dir x"
  by (auto dest!: find_all_name simp: link_ref_def split: option.splits list.splits)

lemma tokens_soup_absolute_imgs:
  "(\<forall>l\<in>set (soup_find_all (map (absolute_imgs b) soup) nm). get_tokens l ''rel'' \<noteq> Some []) =
   (\<forall>l\<in>set (soup_find_all soup nm). get_tokens l ''rel'' \<noteq> Some [])"
  by (simp add: soup_find_all_absolute_imgs tokens_absolute_imgs)

lemma local_refs_absolute_imgs:
  "local_refs base_dir (soup_find_all (map (absolute_imgs b) soup) ''link'') =
   local_refs base_dir (soup_find_all soup ''link'')"
proof -
  have "\<And>x. x \<in> set (soup_find_all soup ''link'') \<Longrightarrow>
          link_ref base_dir (absolute_imgs b x) = link_ref base_dir x"
    by (auto simp: soup_find_all_def link_ref_absolute_imgs)
  then have "\<And>xs. set xs \<subseteq> set (soup_find_all soup ''link'') \<Longrightarrow>
          List.map_filter (link_ref base_dir) (map (absolute_imgs b) xs) =
          List.map_filter (link_ref base_dir) xs"
    subgoal for xs by (induction xs) (auto simp: map_filter_simps split: option.splits)
    done
  then show ?thesis
    by (simp add: local_refs_def soup_find_all_absolute_imgs)
qed

lemma find_css_files_eq:
  "\<forall>l\<in>set (soup_find_all soup ''link''). get_tokens l ''rel'' \<noteq> Some [] \<Longrightarrow>
   find_css_files e soup base_dir out =
     (Inr (filter (path_exists e) (local_refs base_dir (soup_find_all soup ''link''))),
      out @ map missing_warning
              (filter (\<lambda>p. \<not> path_exists e p) (local_refs base_dir (soup_find_all soup ''link''))))"
  by (simp add: find_css_files_def find_css_loop_eq)

lemma convert_no_css_eq:
  "read_text e html_path = Inr content \<Longrightarrow>
   convert_html_to_pdf e html_path out_pdf ps m False apn w =
     ((case write_pdf e (str_soup e (map (absolute_imgs (abspath e (os_path_dirname html_path)))
                                         (BeautifulSoup e content)))
                      out_pdf [CSS (page_css ps m apn)] of
         Some ex \<Rightarrow> Inl ex | None \<Rightarrow> Inr ()),
      w\<lparr>stdout := stdout w,
        rendered := rendered w @
          [(str_soup e (map (absolute_imgs (abspath e (os_path_dirname html_path)))
                            (BeautifulSoup e content)),
            out_pdf, [CSS (page_css ps m apn)])]\<rparr>)"
  by (simp add: convert_html_to_pdf_def Let_def split: option.splits)

lemma convert_css_eq:
  assumes "read_text e html_path = Inr content"
    and "\<forall>l\<in>set (soup_find_all (BeautifulSoup e content) ''link''). get_tokens l ''rel'' \<noteq> Some []"
  shows "convert_html_to_pdf e html_path out_pdf ps m True apn w =
     ((case write_pdf e (str_soup e (map (absolute_imgs (abspath e (os_path_dirname html_path)))
                                         (BeautifulSoup e content)))
                      out_pdf
                      (List.map_filter (loaded e) (filter (path_exists e)
                          (local_refs (abspath e (os_path_dirname html_path))
                             (soup_find_all (BeautifulSoup e content) ''link'')))
                       @ [default_css, CSS (page_css ps m apn)]) of
         Some ex \<Rightarrow> Inl ex | None \<Rightarrow> Inr ()),
      w\<lparr>stdout := stdout w @
          map missing_warning (filter (\<lambda>p. \<not> path_exists e p)
             (local_refs (abspath e (os_path_dirname html_path))
                (soup_find_all (BeautifulSoup e content) ''link''))) @
          List.map_filter (load_warning e) (filter (path_exists e)
             (local_refs (abspath e (os_path_dirname html_path))
                (soup_find_all (BeautifulSoup e content) ''link''))),
        rendered := rendered w @
          [(str_soup e (map (absolute_imgs (abspath e (os_path_dirname html_path)))
                            (BeautifulSoup e content)),
            out_pdf,
            List.map_filter (loaded e) (filter (path_exists e)
                (local_refs (abspath e (os_path_dirname html_path))
                   (soup_find_all (BeautifulSoup e content) ''link'')))
            @ [default_css, CSS (page_css ps m apn)])]\<rparr>)"
proof -
  let ?b = "abspath e (os_path_dirname html_path)"
  let ?soup = "map (absolute_imgs ?b) (BeautifulSoup e content)"
  have ok: "\<forall>l\<in>set (soup_find_all ?soup ''link''). get_tokens l ''rel'' \<noteq> Some []"
    using assms(2) by (simp only: tokens_soup_absolute_imgs)
  have f: "find_css_files e ?soup ?b (stdout w) =
     (Inr (filter (path_exists e) (local_refs ?b (soup_find_all (BeautifulSoup e content) ''link''))),
      stdout w @ map missing_warning
              (filter (\<lambda>p. \<not> path_exists e p)
                 (local_refs ?b (soup_find_all (BeautifulSoup e content) ''link''))))"
    using find_css_files_eq [OF ok, of e ?b "stdout w"]
    by (simp only: local_refs_absolute_imgs)
  show ?thesis
    unfolding convert_html_to_pdf_def Let_def
    by (simp add: assms(1) f load_css_files_eq split: option.splits)
qed

subsection \<open>The sample run, evaluated\<close>

lemma sample_read: "read_text sample_env ''/x/doc.html'' = Inr ''<html>''"
  by (simp add: sample_env_def)

lemma sample_soup_parsed: "BeautifulSoup sample_env content = sample_soup"
  by (simp add: sample_env_def)

lemma sample_links:
  "soup_find_all sample_soup ''link'' =
     [Tag ''link'' [(''href'', ''style.css'')] [(''rel'', [''Stylesheet''])] [],
      Tag ''link'' [(''href'', ''gone.css'')] [(''rel'', [''stylesheet''])] [],
      Tag ''link'' [(''href'', ''locked.css'')] [(''rel'', [''stylesheet'', ''alternate''])] [],
      Tag ''link'' [(''href'', ''https://cdn/x.css'')] [(''rel'', [''stylesheet''])] [],
      Tag ''link'' [(''href'', ''icon.png'')] [(''rel'', [''icon''])] []]"
  by (simp add: sample_soup_def soup_find_all_def)

lemma sample_rel:
  "\<forall>l\<in>set (soup_find_all (BeautifulSoup sample_env ''<html>'') ''link''). get_tokens l ''rel'' \<noteq> Some []"
  by (simp add: sample_env_def sample_links)

lemma sample_base: "abspath sample_env (os_path_dirname ''/x/doc.html'') = ''/x''"
  by (simp add: sample_env_def os_path_dirname_def rstrip_sep_def)

lemma lower_samples:
  "lower ''Stylesheet'' = ''stylesheet''" "lower ''stylesheet'' = ''stylesheet''"
  "lower ''icon'' = ''icon''"
  by (code_simp+)

lemma sample_refs:
  "local_refs ''/x'' (soup_find_all sample_soup ''link'') =
     [''/x/style.css'', ''/x/gone.css'', ''/x/locked.css'']"
  by (simp add: sample_links local_refs_def map_filter_simps link_ref_def lower_samples
        os_path_join_def startswith_def endswith_def)

lemma sample_doc:
  "str_soup sample_env (map (absolute_imgs ''/x'') sample_soup) =
     ''file:///x/pic.png https://h/p.png file:///x/data:image/png;base64,AA ''"
  by (simp add: sample_env_def sample_soup_def img_srcs_def soup_find_all_def img_src_def
        os_path_join_def startswith_def endswith_def)

lemma sample_run:
  "convert_html_to_pdf sample_env ''/x/doc.html'' out_pdf ps m True apn sample_world =
     (Inr (),
      \<lparr>stdout = [''Warning: CSS file not found: /x/gone.css'',
                 ''Warning: Could not load CSS file /x/locked.css: Permission denied''],
       rendered = [(''file:///x/pic.png https://h/p.png file:///x/data:image/png;base64,AA '',
                    out_pdf,
                    [CSS ''body { color: red }'', default_css, CSS (page_css ps m apn)])]\<rparr>)"
proof -
  have b: "BeautifulSoup sample_env ''<html>'' = sample_soup" by (simp add: sample_env_def)
  have f: "filter (path_exists sample_env) [''/x/style.css'', ''/x/gone.css'', ''/x/locked.css'']
             = [''/x/style.css'', ''/x/locked.css'']"
    by (simp add: sample_env_def)
  have g: "filter (\<lambda>p. \<not> path_exists sample_env p) [''/x/style.css'', ''/x/gone.css'', ''/x/locked.css'']
             = [''/x/gone.css'']"
    by (simp add: sample_env_def)
  have l: "List.map_filter (loaded sample_env) [''/x/style.css'', ''/x/locked.css''] = [CSS ''body { color: red }'']"
    by (simp add: map_filter_simps loaded_def sample_env_def)
  have v: "List.map_filter (load_warning sample_env) [''/x/style.css'', ''/x/locked.css'']
      = [''Warning: Could not load CSS file /x/locked.css: Permission denied'']"
    by (simp add: map_filter_simps load_warning_def sample_env_def)
  have w: "write_pdf sample_env = (\<lambda>doc out ss. None)" by (simp add: sample_env_def)
  show ?thesis
    using convert_css_eq [OF sample_read sample_rel, of out_pdf ps m apn sample_world]
    unfolding sample_base b sample_refs f g l v w sample_doc
    by (simp add: missing_warning_def sample_world_def)
qed

subsection \<open>The stylesheet sequence\<close>

text \<open>
  Claim C1, as the specification states it: with \<open>includeCss=false\<close> the stylesheet sequence
  holds the default page-style block followed by the page-rule block, two entries. The
  code differs: the default block is appended inside \<open>load_css_files\<close>, which runs only
  under \<open>if include_css\<close>. On the sample document with \<open>--no-css --no-page-numbers
  --size Letter --margin 2cm\<close> the renderer receives one entry, the page-rule block.
\<close>

theorem no_css_default_block_counterexample:
  "snd (snd (last (rendered (snd (convert_html_to_pdf sample_env ''/x/doc.html'' ''out.pdf''
       ''Letter'' ''2cm'' False False sample_world))))) = [CSS (page_css ''Letter'' ''2cm'' False)] \<and>
   [CSS (page_css ''Letter'' ''2cm'' False)] \<noteq> [default_css, CSS (page_css ''Letter'' ''2cm'' False)]"
  by (simp add: convert_no_css_eq [OF sample_read])

text \<open>
  Claim C1, amended: for every conversion with \<open>includeCss=false\<close> whose input document can
  be read, the renderer is called once, and its stylesheet sequence is exactly the composed
  page-rule block: one entry, no document-sourced stylesheet and no default block.
\<close>

theorem no_css_sequence:
  "read_text e html_path = Inr content \<Longrightarrow>
   rendered (snd (convert_html_to_pdf e html_path out_pdf ps m False apn w)) =
     rendered w @
       [(str_soup e (map (absolute_imgs (abspath e (os_path_dirname html_path)))
                         (BeautifulSoup e content)),
         out_pdf, [CSS (page_css ps m apn)])]"
  by (simp add: convert_no_css_eq)

theorem no_css_sequence_witness:
  "read_text sample_env ''/x/doc.html'' = Inr ''<html>'' \<and>
   rendered (snd (convert_html_to_pdf sample_env ''/x/doc.html'' ''out.pdf'' ''Letter'' ''2cm''
                    False False sample_world)) =
     [(''file:///x/pic.png https://h/p.png file:///x/data:image/png;base64,AA '',
       ''out.pdf'', [CSS (page_css ''Letter'' ''2cm'' False)])]"
  using no_css_sequence [OF sample_read, of "''out.pdf''" "''Letter''" "''2cm''" False sample_world]
    sample_read
  by (simp add: sample_base sample_doc sample_soup_parsed sample_world_def)

text \<open>
  Claim C2: whatever the options and the document, every stylesheet sequence the conversion
  hands to the renderer is non-empty and ends with the page-rule block composed from the
  given page size, margin and page-number flag.
\<close>

theorem page_rule_block_last:
  "rendered (snd (convert_html_to_pdf e html_path out_pdf ps m inc apn w)) = rendered w @ calls \<Longrightarrow>
   (d, p, ss) \<in> set calls \<Longrightarrow>
   ss \<noteq> [] \<and> last ss = CSS (page_css ps m apn)"
  by (auto simp: convert_html_to_pdf_def Let_def
           split: sum.splits prod.splits option.splits if_splits)

theorem page_rule_block_last_witness:
  "rendered (snd (convert_html_to_pdf sample_env ''/x/doc.html'' ''output.pdf'' ''A4'' ''1cm'' True True
                    sample_world)) =
     rendered sample_world @
       [(''file:///x/pic.png https://h/p.png file:///x/data:image/png;base64,AA '', ''output.pdf'',
         [CSS ''body { color: red }'', default_css, CSS (page_css ''A4'' ''1cm'' True)])] \<and>
   [CSS ''body { color: red }'', default_css, CSS (page_css ''A4'' ''1cm'' True)] \<noteq> [] \<and>
   last [CSS ''body { color: red }'', default_css, CSS (page_css ''A4'' ''1cm'' True)] =
     CSS (page_css ''A4'' ''1cm'' True)"
proof -
  have c: "rendered (snd (convert_html_to_pdf sample_env ''/x/doc.html'' ''output.pdf'' ''A4'' ''1cm'' True True
                    sample_world)) =
     rendered sample_world @
       [(''file:///x/pic.png https://h/p.png file:///x/data:image/png;base64,AA '', ''output.pdf'',
         [CSS ''body { color: red }'', default_css, CSS (page_css ''A4'' ''1cm'' True)])]"
    unfolding sample_run by (simp add: sample_world_def)
  show ?thesis
    using c page_rule_block_last [OF c, of
        "''file:///x/pic.png https://h/p.png file:///x/data:image/png;base64,AA ''" "''output.pdf''"
        "[CSS ''body { color: red }'', default_css, CSS (page_css ''A4'' ''1cm'' True)]"]
    by simp
qed

subsection \<open>Image paths\<close>

text \<open>
  Claim C3, as the specification states it: every \<open>img\<close> whose \<open>src\<close> is present and starts
  with none of \<open>http://\<close>, \<open>https://\<close>, \<open>/\<close> is rewritten. The guard of line 65 is
  \<open>if src and not src.startswith(...)\<close>: an empty \<open>src\<close> is present, starts with none of the
  three prefixes, and is left as it is.
\<close>

theorem empty_src_counterexample:
  "get_attr (absolute_imgs ''/x'' (Tag ''img'' [(''src'', [])] [] [])) ''src'' = Some [] \<and>
   Some [] \<noteq> Some (''file://'' @ os_path_join ''/x'' [])"
  by (simp add: img_src_def)

text \<open>
  Claim C3, amended: the \<open>img\<close> elements of the normalized document are those of the parsed
  document, in the same order; a \<open>src\<close> that is present, not empty and starts with none of
  \<open>http://\<close>, \<open>https://\<close>, \<open>/\<close> becomes \<open>file://\<close> followed by the path-join of the
  containing directory and the old value; a \<open>src\<close> that is empty or starts with one of the
  three prefixes is unchanged, and an absent \<open>src\<close> stays absent.
\<close>

theorem img_src_normalized:
  "map (\<lambda>n. get_attr n ''src'') (soup_find_all (map (absolute_imgs base_dir) soup) ''img'') =
   map (\<lambda>n. map_option (new_src base_dir) (get_attr n ''src'')) (soup_find_all soup ''img'')"
proof -
  have "\<And>x. x \<in> set (soup_find_all soup ''img'') \<Longrightarrow>
          get_attr (absolute_imgs base_dir x) ''src'' = map_option (new_src base_dir) (get_attr x ''src'')"
  proof -
    fix x assume "x \<in> set (soup_find_all soup ''img'')"
    then obtain n where "x \<in> set (find_all ''img'' n)"
      by (auto simp: soup_find_all_def)
    then obtain a m cs where "x = Tag ''img'' a m cs"
      using find_all_name by blast
    then show "get_attr (absolute_imgs base_dir x) ''src'' = map_option (new_src base_dir) (get_attr x ''src'')"
      using img_get_src by simp
  qed
  then show ?thesis
    by (simp add: soup_find_all_absolute_imgs)
qed

subsection \<open>The page-rule block\<close>


subsection \<open>Image paths and the stylesheet option\<close>



lemma startswith_append: "startswith s p \<Longrightarrow> \<exists>r. s = p @ r"
  unfolding startswith_def by (metis append_take_drop_id)

lemma os_path_join_relative:
  "\<not> startswith b ''/'' \<Longrightarrow>
   os_path_join a b = (if a = [] \<or> endswith a ''/'' then a @ b else a @ ''/'' @ b)"
  by (simp add: os_path_join_def)

text \<open>
  Claim C9: an \<open>img\<close> whose \<open>src\<close> already is a \<open>file://\<close> or a \<open>data:\<close> URI is not left
  untouched. Only \<open>http://\<close>, \<open>https://\<close> and \<open>/\<close> are exempt, so the new value is
  \<open>file://\<close>, the containing directory, a separator where the directory does not end with
  one, and the whole old value: a \<open>file://\<close> URI ends up with the scheme twice.
\<close>

theorem scheme_src_double_prefixed:
  assumes "map_of a ''src'' = Some src"
    and "startswith src ''file://'' \<or> startswith src ''data:''"
  shows "get_attr (absolute_imgs base_dir (Tag ''img'' a m cs)) ''src'' =
           Some (''file://'' @ os_path_join base_dir src) \<and>
         os_path_join base_dir src =
           (if base_dir = [] \<or> endswith base_dir ''/'' then base_dir @ src
            else base_dir @ ''/'' @ src) \<and>
         ''file://'' @ os_path_join base_dir src \<noteq> src"
proof -
  from assms(2) obtain r where r: "src = ''file://'' @ r \<or> src = ''data:'' @ r"
    using startswith_append by blast
  then have ne: "src \<noteq> []"
    and n1: "\<not> startswith src ''http://''" and n2: "\<not> startswith src ''https://''"
    and n3: "\<not> startswith src ''/''"
    by (auto simp: startswith_def)
  have j: "os_path_join base_dir src =
           (if base_dir = [] \<or> endswith base_dir ''/'' then base_dir @ src
            else base_dir @ ''/'' @ src)"
    using n3 by (rule os_path_join_relative)
  have "length (''file://'' @ os_path_join base_dir src) > length src"
    by (simp add: j)
  then have d: "''file://'' @ os_path_join base_dir src \<noteq> src"
    by (metis less_irrefl)
  have "new_src base_dir src = ''file://'' @ os_path_join base_dir src"
    using ne n1 n2 n3 by (simp add: new_src_def)
  then have "get_attr (absolute_imgs base_dir (Tag ''img'' a m cs)) ''src'' =
           Some (''file://'' @ os_path_join base_dir src)"
    using img_get_src [of base_dir a m cs] assms(1) by (simp del: absolute_imgs.simps)
  then show ?thesis using j d by blast
qed

theorem scheme_src_double_prefixed_witness:
  "map_of [(''src'', ''file:///home/u/pic.png'')] ''src'' = Some ''file:///home/u/pic.png'' \<and>
   startswith ''file:///home/u/pic.png'' ''file://'' \<and>
   get_attr (absolute_imgs ''/x'' (Tag ''img'' [(''src'', ''file:///home/u/pic.png'')] [] [])) ''src'' =
     Some ''file:///x/file:///home/u/pic.png''"
proof -
  have a: "map_of [(''src'', ''file:///home/u/pic.png'')] ''src'' = Some ''file:///home/u/pic.png''"
    by simp
  have b: "startswith ''file:///home/u/pic.png'' ''file://''"
    by (simp add: startswith_def)
  have c: "startswith ''file:///home/u/pic.png'' ''file://'' \<or> startswith ''file:///home/u/pic.png'' ''data:''"
    using b by blast
  have e: "\<not> endswith ''/x'' ''/''" by (simp add: endswith_def)
  show ?thesis
    using scheme_src_double_prefixed [OF a c, of "''/x''" "[]" "[]"] a b e
    by simp
qed

subsection \<open>Collecting stylesheets\<close>

text \<open>
  Claim C6, as the specification states it: the collector selects the \<open>link\<close> elements whose
  first \<open>rel\<close> token is \<open>stylesheet\<close> and whose \<open>href\<close> is present. Line 13 tests the truth
  value of \<open>link.get('href')\<close>, so a present but empty \<open>href\<close> is not selected: in the
  directory \<open>/x\<close> the specification's selection resolves it to \<open>/x/\<close>, which exists, while
  \<open>find_css_files\<close> returns no file.
\<close>

theorem empty_href_counterexample:
  "fst (find_css_files dir_env empty_href_soup ''/x'' []) = Inr [] \<and>
   filter (path_exists dir_env) (spec_local_refs ''/x'' (soup_find_all empty_href_soup ''link''))
     = [''/x/'']"
  by (simp add: find_css_files_def soup_find_all_def empty_href_soup_def rel_first_def
        lower_samples spec_local_refs_def spec_link_ref_def map_filter_simps os_path_join_def
        startswith_def endswith_def dir_env_def)

text \<open>
  Claim C6, amended: in a document each of whose \<open>link\<close> elements has at least one token in
  its \<open>rel\<close> attribute when it has that attribute, the collector selects exactly the \<open>link\<close>
  elements whose first \<open>rel\<close> token equals \<open>stylesheet\<close> in any letter case and whose \<open>href\<close>
  is present and not empty, skips the references starting with \<open>http://\<close> or \<open>https://\<close>,
  resolves the others against the containing directory, keeps those that exist, and returns
  the contents of those that can be read, in document order, followed by the default block.
\<close>

theorem collector_selection:
  assumes "\<forall>l\<in>set (soup_find_all soup ''link''). get_tokens l ''rel'' \<noteq> Some []"
  shows "\<exists>css_files out'.
     find_css_files e soup base_dir out = (Inr css_files, out') \<and>
     css_files = filter (path_exists e) (local_refs base_dir (soup_find_all soup ''link'')) \<and>
     fst (load_css_files e css_files out') = List.map_filter (loaded e) css_files @ [default_css]"
  using find_css_files_eq [OF assms, of e base_dir out]
  by (simp add: load_css_files_eq)

theorem collector_selection_witness:
  "fst (find_css_files sample_env sample_soup ''/x'' []) = Inr [''/x/style.css'', ''/x/locked.css''] \<and>
   fst (load_css_files sample_env [''/x/style.css'', ''/x/locked.css'']
          (snd (find_css_files sample_env sample_soup ''/x'' []))) =
     [CSS ''body { color: red }'', default_css]"
proof -
  have r: "\<forall>l\<in>set (soup_find_all sample_soup ''link''). get_tokens l ''rel'' \<noteq> Some []"
    by (simp add: sample_links)
  have f: "filter (path_exists sample_env) [''/x/style.css'', ''/x/gone.css'', ''/x/locked.css'']
             = [''/x/style.css'', ''/x/locked.css'']"
    by (simp add: sample_env_def)
  have l: "loaded sample_env ''/x/style.css'' = Some (CSS ''body { color: red }'')"
    "loaded sample_env ''/x/locked.css'' = None"
    by (simp_all add: loaded_def sample_env_def)
  show ?thesis
    using collector_selection [OF r, of sample_env "''/x''" "[]"]
    unfolding sample_refs f
    by (auto simp: map_filter_simps l)
qed





subsection \<open>Failures\<close>

text \<open>
  Claim C7: \<open>main\<close> always returns normally. When the conversion raises, at whatever stage,
  the last line printed is \<open>Error:\<close> followed by the message of the exception; when the
  input document cannot be read, nothing else happens: the renderer is not called, so no
  output file is written.
\<close>

theorem main_reports_failure:
  "fst (main e a w) = Inr () \<and>
   (\<forall>ex w'. convert_html_to_pdf e (args_html_file a) (args_output a) (args_size a) (args_margin a)
               (\<not> args_no_css a) (\<not> args_no_page_numbers a) w = (Inl ex, w') \<longrightarrow>
      snd (main e a w) = w'\<lparr>stdout := stdout w' @ [''Error: '' @ str_exn ex]\<rparr>) \<and>
   (\<forall>ex. read_text e (args_html_file a) = Inl ex \<longrightarrow>
      snd (main e a w) = w\<lparr>stdout := stdout w @ [''Error: '' @ str_exn ex]\<rparr>)"
proof -
  have "read_text e (args_html_file a) = Inl ex \<Longrightarrow>
        convert_html_to_pdf e (args_html_file a) (args_output a) (args_size a) (args_margin a)
               (\<not> args_no_css a) (\<not> args_no_page_numbers a) w = (Inl ex, w)" for ex
    by (simp add: convert_html_to_pdf_def)
  then show ?thesis
    by (auto simp: main_def split: prod.splits sum.splits)
qed

theorem main_reports_failure_witness:
  "read_text sample_env (args_html_file missing_args) = Inl (IOError ''No such file or directory'') \<and>
   fst (main sample_env missing_args sample_world) = Inr () \<and>
   snd (main sample_env missing_args sample_world) =
     \<lparr>stdout = [''Error: No such file or directory''], rendered = []\<rparr>"
proof -
  have r: "read_text sample_env (args_html_file missing_args) = Inl (IOError ''No such file or directory'')"
    by (simp add: sample_env_def missing_args_def)
  show ?thesis
    using main_reports_failure [of sample_env missing_args sample_world] r
    by (simp add: sample_world_def)
qed

end
